theory Spec2Isabelle
  imports Complex_Main "HOL-Library.Multiset" "HOL-Library.Char_ord" "HOL-Library.List_Lexorder"
begin

section \<open>Flaw nozzle finder: the geometric core of \<^verbatim>\<open>flaw_nozzle_finder.py\<close>\<close>

text \<open>
  Coordinates are Python floats in the source; they are modelled as exact reals, so the
  model computes the arithmetic the code writes down, without rounding error, overflow,
  underflow, infinities or NaN. It follows the code on the calls whose float operations are
  all exact (\<open>exact_arithmetic\<close> below); the general statements about positions and indices
  are made for those calls. Exceptions are values: a function that can raise returns
  \<open>error + 'a\<close>; of the exceptions of the arithmetic, only the division by a zero step is
  in the model.
\<close>

type_synonym point = "real \<times> real"

datatype error = ZeroDivisionError | KeyError | ValueError

subsection \<open>Python built-ins used by the source\<close>

text \<open>Float division \<^verbatim>\<open>a / b\<close>: raises \<^verbatim>\<open>ZeroDivisionError\<close> when the divisor is zero.\<close>

definition truediv :: "real \<Rightarrow> real \<Rightarrow> error + real" where
  "truediv a b = (if b = 0 then Inl ZeroDivisionError else Inr (a / b))"

text \<open>\<^verbatim>\<open>round(x)\<close> of Python 3 with one argument: the nearest integer, a tie going to the even one.\<close>

definition py_round :: "real \<Rightarrow> int" where
  "py_round x =
     (let f = \<lfloor>x\<rfloor>; d = x - of_int f
      in if d < 1 / 2 then f
         else if 1 / 2 < d then f + 1
         else if even f then f else f + 1)"

text \<open>\<^verbatim>\<open>math.atan2(y, x)\<close> over the reals: the angle of the vector \<open>(x, y)\<close> in \<open>(-\<pi>, \<pi>]\<close>,
  and \<open>0\<close> for the zero vector.\<close>

definition atan2 :: "real \<Rightarrow> real \<Rightarrow> real" where
  "atan2 y x =
     (if 0 < x then arctan (y / x)
      else if x < 0 then (if 0 \<le> y then arctan (y / x) + pi else arctan (y / x) - pi)
      else if 0 < y then pi / 2
      else if y < 0 then - (pi / 2)
      else 0)"

text \<open>\<^verbatim>\<open>math.degrees(a)\<close>.\<close>

definition degrees :: "real \<Rightarrow> real" where
  "degrees a = a * (180 / pi)"

subsection \<open>\<^verbatim>\<open>rotate_to_vertical\<close>\<close>

text \<open>
  The function has two return statements of different shapes: the bare list \<^verbatim>\<open>[]\<close> when
  fewer than two points are given, and the pair \<^verbatim>\<open>angle, rotated\<close> otherwise.
\<close>

datatype rot_result = Empty_list | Angle_rotated real "point list"

definition rotate_to_vertical :: "point list \<Rightarrow> rot_result" where
  "rotate_to_vertical points =
     (if length points < 2 then Empty_list
      else
        let pts = sort_key fst points;
            (x1, y1) = hd pts;
            (x2, y2) = last pts;
            dx = x2 - x1;
            dy = y2 - y1;
            angle = atan2 dy dx;
            cos_a = cos (- angle);
            sin_a = sin (- angle);
            rotated = map (\<lambda>(x, y). (x * cos_a - y * sin_a, x * sin_a + y * cos_a)) pts
        in Angle_rotated angle rotated)"

text \<open>The tuple assignment \<^verbatim>\<open>angle, rotated = ...\<close>: unpacking the empty list raises
  \<^verbatim>\<open>ValueError\<close>.\<close>

fun unpack2 :: "rot_result \<Rightarrow> error + real \<times> point list" where
  "unpack2 Empty_list = Inl ValueError"
| "unpack2 (Angle_rotated angle rotated) = Inr (angle, rotated)"

subsection \<open>\<^verbatim>\<open>find_nozzles\<close>\<close>

type_synonym match_detail = "real \<times> real \<times> int \<times> bool"

type_synonym nozzles = "int list \<times> (real \<times> real) list \<times> real \<times> real \<times> real \<times> match_detail list"

text \<open>The loop over \<^verbatim>\<open>mid\<close>, with the three lists it appends to as accumulators.\<close>

fun match_loop ::
  "real \<Rightarrow> real \<Rightarrow> real \<Rightarrow> real list \<Rightarrow> int list \<Rightarrow> (real \<times> real) list \<Rightarrow> match_detail list
     \<Rightarrow> error + int list \<times> (real \<times> real) list \<times> match_detail list" where
  "match_loop start step tolerance [] indices out_of_range details =
     Inr (indices, out_of_range, details)"
| "match_loop start step tolerance (x # mid) indices out_of_range details =
     (case truediv (x - start) step of
        Inl e \<Rightarrow> Inl e
      | Inr q \<Rightarrow>
          let pos = q + 1;
              rounded = py_round pos;
              in_tol = \<bar>of_int rounded - pos\<bar> < tolerance
          in if in_tol
             then match_loop start step tolerance mid
                    (indices @ [rounded]) out_of_range (details @ [(x, pos, rounded, in_tol)])
             else match_loop start step tolerance mid
                    indices (out_of_range @ [(x, pos)]) (details @ [(x, pos, rounded, in_tol)]))"

definition find_nozzles :: "real list \<Rightarrow> int \<Rightarrow> real \<Rightarrow> error + nozzles" where
  "find_nozzles xs nozzle_count tolerance =
     (if length xs < 2 \<or> nozzle_count < 2 then Inr ([], [], 0, 0, 0, [])
      else
        let sorted_x = sort xs;
            start = hd sorted_x;
            end_x = last sorted_x;
            mid = butlast (tl sorted_x)
        in if nozzle_count = 1 then Inr ([], [], start, end_x, 0, [])
           else
             let step = (end_x - start) / of_int (nozzle_count - 1)
             in case match_loop start step tolerance mid [] [] [] of
                  Inl e \<Rightarrow> Inl e
                | Inr (indices, out_of_range, details) \<Rightarrow>
                    Inr (indices, out_of_range, start, end_x, step, details))"

subsection \<open>Where the reals are the code's floats\<close>



subsection \<open>\<^verbatim>\<open>process_labels\<close> and the combined index list of \<^verbatim>\<open>main\<close>\<close>

record LabelData =
  label :: string
  points :: "point list"
  nozzle_indices :: "int list"
  out_of_range :: "(real \<times> real) list"
  angle_deg :: real
  step :: real
  start :: real
  end_x :: real
  details :: "match_detail list"

text \<open>
  The dictionary \<^verbatim>\<open>groups\<close> is an association list with distinct keys, in iteration order.
  \<^verbatim>\<open>sorted(groups)\<close> sorts its keys; strings compare lexicographically by character code.
\<close>

fun process_loop ::
  "(string \<times> point list) list \<Rightarrow> int \<Rightarrow> real \<Rightarrow> string list \<Rightarrow> LabelData list
     \<Rightarrow> error + LabelData list" where
  "process_loop groups nozzle_count tolerance [] results = Inr results"
| "process_loop groups nozzle_count tolerance (lbl # rest) results =
     (case map_of groups lbl of
        None \<Rightarrow> Inl KeyError
      | Some pts \<Rightarrow>
          (case (if 2 \<le> length pts then unpack2 (rotate_to_vertical pts) else Inr (0, [])) of
             Inl e \<Rightarrow> Inl e
           | Inr (angle, rotated) \<Rightarrow>
               (case find_nozzles (map fst rotated) nozzle_count tolerance of
                  Inl e \<Rightarrow> Inl e
                | Inr (indices, outliers, st, en, stp, dets) \<Rightarrow>
                    process_loop groups nozzle_count tolerance rest
                      (results @
                        [\<lparr>label = lbl, points = pts, nozzle_indices = indices,
                          out_of_range = outliers, angle_deg = degrees angle, step = stp,
                          start = st, end_x = en, details = dets\<rparr>]))))"

definition process_labels ::
  "(string \<times> point list) list \<Rightarrow> int \<Rightarrow> real \<Rightarrow> error + LabelData list" where
  "process_labels groups nozzle_count tolerance =
     process_loop groups nozzle_count tolerance (sort (map fst groups)) []"

text \<open>Line 210 of \<^verbatim>\<open>main\<close>: the set of all accepted indices, sorted.\<close>

definition combined :: "LabelData list \<Rightarrow> int list" where
  "combined label_data = sort (remdups (concat (map nozzle_indices label_data)))"

text \<open>Lines 208 to 210 of \<^verbatim>\<open>main\<close>: the label results and the combined index list.\<close>

definition main_combined ::
  "(string \<times> point list) list \<Rightarrow> int \<Rightarrow> real \<Rightarrow> error + LabelData list \<times> int list" where
  "main_combined groups nozzles tolerance =
     (case process_labels groups nozzles tolerance of
        Inl e \<Rightarrow> Inl e
      | Inr label_data \<Rightarrow> Inr (label_data, combined label_data))"

section \<open>Auxiliary facts\<close>

subsection \<open>Rounding\<close>




subsection \<open>The matching loop and the sorted coordinates\<close>




lemma sort_key_nonempty:
  assumes "2 \<le> length ps"
  shows "sort_key f ps \<noteq> []"
proof
  assume "sort_key f ps = []"
  from arg_cong [OF this, of length] have "length ps = 0" by simp
  then show False using assms by simp
qed



subsection \<open>What \<^verbatim>\<open>find_nozzles\<close> returns\<close>







subsection \<open>The angle of the endpoint line\<close>

lemma atan2_turn: "dx * sin (atan2 dy dx) = dy * cos (atan2 dy dx)"
proof -
  have base: "dx * sin (arctan (dy / dx)) = dy * cos (arctan (dy / dx))" if "dx \<noteq> 0"
    using that by (simp add: sin_arctan cos_arctan)
  consider "0 < dx" | "dx < 0" "0 \<le> dy" | "dx < 0" "dy < 0" | "dx = 0"
    by linarith
  then show ?thesis
  proof cases
    case 1
    then show ?thesis using base by (simp add: atan2_def)
  next
    case 2
    then show ?thesis using base by (simp add: atan2_def)
  next
    case 3
    then show ?thesis using base by (simp add: atan2_def)
  next
    case 4
    then show ?thesis by (simp add: atan2_def)
  qed
qed

subsection \<open>The loop over the labels\<close>

lemma process_loop_cong:
  assumes "map_of g1 = map_of g2"
  shows "process_loop g1 N T ls r = process_loop g2 N T ls r"
  using assms by (induction ls arbitrary: r) (simp_all split: option.splits sum.splits prod.splits)

lemma process_loop_labels:
  "process_loop g N T ls r = Inr lds \<Longrightarrow> map label lds = map label r @ ls"
proof (induction ls arbitrary: r)
  case Nil
  then show ?case by simp
next
  case (Cons l ls)
  from Cons.prems show ?case
    by (auto split: option.splits sum.splits prod.splits if_splits dest!: Cons.IH)
qed

lemma sort_mset_eq:
  fixes xs ys :: "'a::linorder list"
  assumes "mset xs = mset ys"
  shows "sort xs = sort ys"
  by (rule properties_for_sort) (simp_all add: assms)

lemma process_labels_permute:
  assumes "distinct (map fst groups)" "mset groups' = mset groups"
  shows "process_labels groups' N T = process_labels groups N T"
proof -
  have m: "mset (map fst groups') = mset (map fst groups)"
    using assms(2) by (metis mset_map)
  have d: "distinct (map fst groups')"
    using assms(1) m by (metis mset_eq_imp_distinct_iff)
  have "set groups' = set groups" using assms(2) by (rule mset_eq_setD)
  then have "map_of groups' = map_of groups"
    using assms(1) d by (simp add: map_of_inject_set)
  then show ?thesis
    unfolding process_labels_def sort_mset_eq [OF m] by (rule process_loop_cong)
qed

lemma combined_props:
  "sorted (combined lds)" "distinct (combined lds)"
  "set (combined lds) = (\<Union>ld \<in> set lds. set (nozzle_indices ld))"
  by (simp_all add: combined_def)

subsection \<open>Finite floats\<close>




section \<open>The claims\<close>




text \<open>
  Claim C2, as the code has it. The three points \<open>(0, 0)\<close>, \<open>(50.2, 0)\<close>, \<open>(100, 0)\<close> of one
  label, with \<open>N = 3\<close> and \<open>T = 0.25\<close>, go through \<^verbatim>\<open>rotate_to_vertical\<close>, \<^verbatim>\<open>find_nozzles\<close>
  and the combined union to step \<open>50\<close>, position \<open>2.004\<close>, rounded index \<open>2\<close>, accepted, and
  combined list \<open>[2]\<close>. With the interior point at \<open>62\<close> the position is \<open>2.24\<close>, the distance
  to the rounded index \<open>0.24\<close>, and the point is accepted; at \<open>63\<close> the position is \<open>2.26\<close>, the
  distance \<open>0.26\<close>, the point is out of range and the combined list is empty.
\<close>

theorem end_to_end_one_based:
  "main_combined [(''A'', [(0, 0), (50.2, 0), (100, 0)])] 3 0.25 =
     Inr ([\<lparr>label = ''A'', points = [(0, 0), (50.2, 0), (100, 0)], nozzle_indices = [2],
            out_of_range = [], angle_deg = 0, step = 50, start = 0, end_x = 100,
            details = [(50.2, 2.004, 2, True)]\<rparr>], [2])
   \<and> main_combined [(''A'', [(0, 0), (62, 0), (100, 0)])] 3 0.25 =
     Inr ([\<lparr>label = ''A'', points = [(0, 0), (62, 0), (100, 0)], nozzle_indices = [2],
            out_of_range = [], angle_deg = 0, step = 50, start = 0, end_x = 100,
            details = [(62, 2.24, 2, True)]\<rparr>], [2])
   \<and> \<bar>2 - 2.24\<bar> = (0.24::real)
   \<and> main_combined [(''A'', [(0, 0), (63, 0), (100, 0)])] 3 0.25 =
     Inr ([\<lparr>label = ''A'', points = [(0, 0), (63, 0), (100, 0)], nozzle_indices = [],
            out_of_range = [(63, 2.26)], angle_deg = 0, step = 50, start = 0, end_x = 100,
            details = [(63, 2.26, 2, False)]\<rparr>], [])
   \<and> \<bar>2 - 2.26\<bar> = (0.26::real)"
  by (simp add: main_combined_def process_labels_def rotate_to_vertical_def atan2_def
       find_nozzles_def truediv_def py_round_def degrees_def combined_def Let_def)

text \<open>
  Claim C2 as the specification words it (position \<open>1.004\<close>, index \<open>1\<close>) fails: the index
  matcher returns position \<open>2.004\<close> and index \<open>2\<close> for the interior coordinate \<open>50.2\<close>.
\<close>

theorem end_to_end_not_zero_based:
  "find_nozzles [0, 50.2, 100] 3 0.25 = Inr ([2], [], 0, 100, 50, [(50.2, 2.004, 2, True)])
   \<and> find_nozzles [0, 50.2, 100] 3 0.25 \<noteq> Inr ([1], [], 0, 100, 50, [(50.2, 1.004, 1, True)])"
  by (simp add: find_nozzles_def truediv_def py_round_def Let_def)

text \<open>
  Claim C3 fails on the code: with three equal coordinates and \<open>N = 2\<close> the step is zero
  and the division in the loop body raises \<^verbatim>\<open>ZeroDivisionError\<close>. A label of three
  identical points brings \<^verbatim>\<open>process_labels\<close> to that call, and the run stops there without
  a result for the other labels.
\<close>

theorem find_nozzles_equal_coordinates_raise:
  "find_nozzles [5, 5, 5] 2 (1 / 4) = Inl ZeroDivisionError
   \<and> process_labels [(''A'', [(1, 1), (1, 1), (1, 1)]), (''B'', [(0, 0), (1, 0), (2, 0)])] 3 (1 / 4)
       = Inl ZeroDivisionError"
  by (simp add: process_labels_def rotate_to_vertical_def atan2_def find_nozzles_def truediv_def)




text \<open>
  Claim C5 fails on the code: with two coordinates and \<open>N = 1\<close> the first guard
  (\<^verbatim>\<open>nozzle_count < 2\<close>) returns zero bounds; the branch for \<^verbatim>\<open>nozzle_count == 1\<close> that
  would return the minimum and the maximum is never reached.
\<close>

theorem find_nozzles_count_one_zero_bounds:
  "find_nozzles [3, 7] 1 (1 / 4) = Inr ([], [], 0, 0, 0, [])"
  by (simp add: find_nozzles_def)

text \<open>
  Claim C6, as the code has it: given fewer than two points, \<^verbatim>\<open>rotate_to_vertical\<close>
  returns the bare empty list, which cannot be unpacked into an angle and a rotated sequence;
  \<^verbatim>\<open>process_labels\<close> guards the call and itself supplies angle zero and no rotated points,
  so the label's result is all empty and zero and no error is raised.
\<close>

theorem rotate_short_guarded:
  assumes "length pts < 2"
  shows "rotate_to_vertical pts = Empty_list
       \<and> unpack2 (rotate_to_vertical pts) = Inl ValueError
       \<and> (map_of groups lbl = Some pts \<longrightarrow>
            process_loop groups N T (lbl # rest) results =
            process_loop groups N T rest
              (results @
                [\<lparr>label = lbl, points = pts, nozzle_indices = [], out_of_range = [],
                  angle_deg = 0, step = 0, start = 0, end_x = 0, details = []\<rparr>]))"
  using assms by (simp add: rotate_to_vertical_def find_nozzles_def degrees_def)

theorem rotate_short_guarded_witness:
  "rotate_to_vertical [(1, 2)] = Empty_list
   \<and> process_labels [(''A'', [(1, 2)])] 636 (1 / 4) =
       Inr [\<lparr>label = ''A'', points = [(1, 2)], nozzle_indices = [], out_of_range = [],
             angle_deg = 0, step = 0, start = 0, end_x = 0, details = []\<rparr>]"
  using rotate_short_guarded [of "[(1, 2)]" "[(''A'', [(1, 2)])]" "''A''" 636 "1 / 4" "[]" "[]"]
  by (simp add: process_labels_def)

text \<open>
  Claim C6 as the specification words it (a result of the same shape as the normal case,
  with an angle of zero) fails for \<^verbatim>\<open>rotate_to_vertical\<close> itself.
\<close>

theorem rotate_short_not_pair:
  "rotate_to_vertical [(1, 2)] = Empty_list
   \<and> rotate_to_vertical [(1, 2)] \<noteq> Angle_rotated 0 []"
  by (simp add: rotate_to_vertical_def)

text \<open>
  Claim C7: the combined index list is the sorted, duplicate-free union of the label
  results' accepted indices: it is ascending without duplicates, each of its elements is an
  accepted index of some label result and each accepted index is in it; the label results
  come in the sorted order of the labels; and giving the same dictionary in another
  iteration order changes neither the label results nor the combined list (nor the error,
  when the run raises one).
\<close>

theorem combined_sorted_dedup_order_free:
  assumes "distinct (map fst groups)" "mset groups' = mset groups"
  shows "main_combined groups' N T = main_combined groups N T
       \<and> (\<forall>lds cs. main_combined groups N T = Inr (lds, cs) \<longrightarrow>
            process_labels groups N T = Inr lds
          \<and> cs = sort (remdups (concat (map nozzle_indices lds)))
          \<and> sorted cs \<and> distinct cs
          \<and> (\<forall>i \<in> set cs. \<exists>ld \<in> set lds. i \<in> set (nozzle_indices ld))
          \<and> (\<forall>ld \<in> set lds. set (nozzle_indices ld) \<subseteq> set cs)
          \<and> map label lds = sort (map fst groups))"
proof -
  have "main_combined groups' N T = main_combined groups N T"
    unfolding main_combined_def process_labels_permute [OF assms] ..
  moreover have "process_labels groups N T = Inr lds \<Longrightarrow> map label lds = sort (map fst groups)" for lds
    unfolding process_labels_def by (drule process_loop_labels) simp
  ultimately show ?thesis
    using combined_props
    by (auto simp: main_combined_def combined_def split: sum.splits)
qed

theorem combined_sorted_dedup_order_free_witness:
  "main_combined [(''B'', [(0, 0), (1, 0), (2, 0)]), (''A'', [(0, 0), (3, 0), (4, 0), (2, 0)])] 3 (1 / 4)
     = main_combined [(''A'', [(0, 0), (3, 0), (4, 0), (2, 0)]), (''B'', [(0, 0), (1, 0), (2, 0)])] 3 (1 / 4)
   \<and> main_combined [(''A'', [(0, 0), (3, 0), (4, 0), (2, 0)]), (''B'', [(0, 0), (1, 0), (2, 0)])] 3 (1 / 4)
     = Inr ([\<lparr>label = ''A'', points = [(0, 0), (3, 0), (4, 0), (2, 0)], nozzle_indices = [2],
              out_of_range = [(3, 5 / 2)], angle_deg = 0, step = 2, start = 0, end_x = 4,
              details = [(2, 2, 2, True), (3, 5 / 2, 2, False)]\<rparr>,
             \<lparr>label = ''B'', points = [(0, 0), (1, 0), (2, 0)], nozzle_indices = [2],
              out_of_range = [], angle_deg = 0, step = 1, start = 0, end_x = 2,
              details = [(1, 2, 2, True)]\<rparr>], [2])"
proof -
  have m: "main_combined [(''A'', [(0, 0), (3, 0), (4, 0), (2, 0)]), (''B'', [(0, 0), (1, 0), (2, 0)])] 3 (1 / 4)
     = Inr ([\<lparr>label = ''A'', points = [(0, 0), (3, 0), (4, 0), (2, 0)], nozzle_indices = [2],
              out_of_range = [(3, 5 / 2)], angle_deg = 0, step = 2, start = 0, end_x = 4,
              details = [(2, 2, 2, True), (3, 5 / 2, 2, False)]\<rparr>,
             \<lparr>label = ''B'', points = [(0, 0), (1, 0), (2, 0)], nozzle_indices = [2],
              out_of_range = [], angle_deg = 0, step = 1, start = 0, end_x = 2,
              details = [(1, 2, 2, True)]\<rparr>], [2])"
    by (simp add: main_combined_def process_labels_def rotate_to_vertical_def atan2_def
         find_nozzles_def truediv_def py_round_def degrees_def combined_def Let_def)
  show ?thesis
    using m combined_sorted_dedup_order_free
    [of "[(''A'', [(0, 0), (3, 0), (4, 0), (2, 0)]), (''B'', [(0, 0), (1, 0), (2, 0)])]"
        "[(''B'', [(0, 0), (1, 0), (2, 0)]), (''A'', [(0, 0), (3, 0), (4, 0), (2, 0)])]" 3 "1 / 4"]
    by simp
qed

text \<open>
  Claim C8: for a label group of at least two points, \<^verbatim>\<open>rotate_to_vertical\<close> returns the
  angle \<open>atan2 dy dx\<close> of the displacement between the first and the last point in order of
  \<open>x\<close>, and the points in that order rotated by the negative angle; over the reals the first
  and the last rotated point then have the same \<open>y\<close>-component.
\<close>

theorem rotation_levels_endpoints:
  assumes "2 \<le> length pts"
  shows "\<exists>angle rotated.
           rotate_to_vertical pts = Angle_rotated angle rotated
         \<and> angle = atan2 (snd (last (sort_key fst pts)) - snd (hd (sort_key fst pts)))
                          (fst (last (sort_key fst pts)) - fst (hd (sort_key fst pts)))
         \<and> rotated = map (\<lambda>(x, y). (x * cos (- angle) - y * sin (- angle),
                                     x * sin (- angle) + y * cos (- angle)))
                        (sort_key fst pts)
         \<and> snd (hd rotated) = snd (last rotated)"
proof -
  define ps where "ps = sort_key fst pts"
  have ne: "ps \<noteq> []" unfolding ps_def using assms by (rule sort_key_nonempty)
  obtain x1 y1 where p1: "hd ps = (x1, y1)" by (cases "hd ps")
  obtain x2 y2 where p2: "last ps = (x2, y2)" by (cases "last ps")
  define a where "a = atan2 (y2 - y1) (x2 - x1)"
  define rot where "rot = (\<lambda>(x, y). (x * cos (- a) - y * sin (- a), x * sin (- a) + y * cos (- a)))"
  have r: "rotate_to_vertical pts = Angle_rotated a (map rot ps)"
    using assms by (simp add: rotate_to_vertical_def Let_def ps_def [symmetric] p1 p2 a_def rot_def)
  have "(x2 - x1) * sin a = (y2 - y1) * cos a" unfolding a_def by (rule atan2_turn)
  then have lvl: "x1 * sin (- a) + y1 * cos (- a) = x2 * sin (- a) + y2 * cos (- a)"
    by (simp add: algebra_simps)
  have "snd (hd (map rot ps)) = snd (last (map rot ps))"
    using ne lvl by (simp add: hd_map last_map p1 p2 rot_def)
  then show ?thesis using r by (simp add: ps_def [symmetric] p1 p2 a_def rot_def)
qed

theorem rotation_levels_endpoints_witness:
  "\<exists>angle rotated.
     rotate_to_vertical [(3, 4), (0, 0), (1, 2)] = Angle_rotated angle rotated
   \<and> snd (hd rotated) = snd (last rotated)"
  using rotation_levels_endpoints [of "[(3, 4), (0, 0), (1, 2)]"] by auto



text \<open>
  Claim C10 fails on the code: a call with four equal coordinates and \<open>N = 3\<close> is in the
  claim's range and has two interior coordinates, but the zero step makes the first pass
  through the loop raise \<^verbatim>\<open>ZeroDivisionError\<close>, so no details list is returned and no
  match detail is recorded. It is the unguarded division of claim C3.
\<close>

theorem no_details_on_equal_coordinates:
  "find_nozzles [2, 2, 2, 2] 3 (1 / 4) = Inl ZeroDivisionError"
  by (simp add: find_nozzles_def truediv_def)

end
